theory Spec2Isabelle
  imports Complex_Main "HOL-Library.AList"
begin

section \<open>Kernel dictionaries of \<open>atoml/regression/gpfunctions/kernel_setup.py\<close>\<close>

text \<open>
  The module works on a dictionary of kernel dictionaries. A Python value that can occur
  in a kernel dictionary is a float, an int, a string, a list, a tuple or \<open>None\<close>.
  Floats are read as real numbers: the module never computes with them, it only copies
  them between the dictionary, the bounds tuple and the flat vector.

  A dictionary is an association list in insertion order with distinct keys; a lookup is
  \<open>map_of\<close>, an assignment \<open>d[k] = v\<close> is \<open>AList.update\<close>, which keeps the position
  of an existing key and appends a new one, as Python does.
\<close>

datatype pyval =
    PFloat real
  | PInt int
  | PStr string
  | PList "pyval list"
  | PTuple "pyval list"
  | PNone

type_synonym kdict = "(string \<times> pyval) list"
type_synonym kernel_dict = "(string \<times> kdict) list"

datatype py_error =
    AssertionError string
  | KeyError string
  | TypeError
  | IndexError
  | ValueError
  | UnboundLocalError
  | NotImplementedError string
  | EvalOutsideModel

definition has_key :: "kdict \<Rightarrow> string \<Rightarrow> bool" where
  "has_key d k = (map_of d k \<noteq> None)"

definition getitem :: "kdict \<Rightarrow> string \<Rightarrow> py_error + pyval" where
  "getitem d k = (case map_of d k of None \<Rightarrow> Inl (KeyError k) | Some v \<Rightarrow> Inr v)"

definition setitem :: "kdict \<Rightarrow> string \<Rightarrow> pyval \<Rightarrow> kdict" where
  "setitem d k v = AList.update k v d"

fun is_float :: "pyval \<Rightarrow> bool" where
  "is_float (PFloat x) = True"
| "is_float v = False"

fun is_int :: "pyval \<Rightarrow> bool" where
  "is_int (PInt n) = True"
| "is_int v = False"

text \<open>\<open>len(v)\<close>: defined on lists, tuples and strings, a \<open>TypeError\<close> on the rest.\<close>

fun py_len :: "pyval \<Rightarrow> py_error + nat" where
  "py_len (PList xs) = Inr (length xs)"
| "py_len (PTuple xs) = Inr (length xs)"
| "py_len (PStr s) = Inr (length s)"
| "py_len v = Inl TypeError"

text \<open>\<open>list(v)\<close>: the elements of a list or tuple, the characters of a string.\<close>

fun py_list :: "pyval \<Rightarrow> py_error + pyval list" where
  "py_list (PList xs) = Inr xs"
| "py_list (PTuple xs) = Inr xs"
| "py_list (PStr s) = Inr (map (\<lambda>c. PStr [c]) s)"
| "py_list v = Inl TypeError"

text \<open>
  The bounds are a Python tuple, held as the list of its entries. \<open>bounds += v\<close> appends
  the entries of \<open>v\<close> when \<open>v\<close> is a tuple and is a \<open>TypeError\<close> otherwise;
  \<open>t * n\<close> repeats a tuple, and a count below one gives the empty tuple.
\<close>

fun tuple_iadd :: "pyval list \<Rightarrow> pyval \<Rightarrow> py_error + pyval list" where
  "tuple_iadd bounds (PTuple xs) = Inr (bounds @ xs)"
| "tuple_iadd bounds v = Inl TypeError"

fun tuple_mul :: "pyval \<Rightarrow> int \<Rightarrow> pyval" where
  "tuple_mul (PTuple xs) n = PTuple (concat (replicate (nat n) xs))"
| "tuple_mul v n = v"

subsection \<open>The setup routines\<close>

text \<open>The quote characters, which occur in the assertion messages.\<close>

definition squote :: string where
  "squote = [CHR 0x27]"

definition dquote :: string where
  "dquote = [CHR 0x22]"

text \<open>
  \<open>for k in kdict_param: assert k in allowed_keys, msg1 + k + msg2\<close>: the first key
  outside the list raises. Assertions are modelled as enabled.
\<close>

fun check_allowed_keys :: "string list \<Rightarrow> string list \<Rightarrow> string \<Rightarrow> string \<Rightarrow> py_error + unit" where
  "check_allowed_keys [] allowed_keys msg1 msg2 = Inr ()"
| "check_allowed_keys (k # ks) allowed_keys msg1 msg2 =
     (if k \<in> set allowed_keys then check_allowed_keys ks allowed_keys msg1 msg2
      else Inl (AssertionError (msg1 @ k @ msg2)))"

text \<open>The tail shared by the setup routines: the block's \<open>bounds\<close>, or else \<open>dflt\<close>.\<close>

definition bounds_or :: "kdict \<Rightarrow> pyval list \<Rightarrow> pyval \<Rightarrow> py_error + pyval list" where
  "bounds_or kdict_param bounds dflt =
     (if has_key kdict_param ''bounds'' then
        (case getitem kdict_param ''bounds'' of
           Inl e \<Rightarrow> Inl e
         | Inr b \<Rightarrow> tuple_iadd bounds b)
      else tuple_iadd bounds dflt)"

definition scaling_setup :: "kdict \<Rightarrow> pyval list \<Rightarrow> pyval \<Rightarrow> py_error + pyval list" where
  "scaling_setup kdict_param bounds default_bounds =
     (case getitem kdict_param ''scaling'' of
        Inl e \<Rightarrow> Inl e
      | Inr s \<Rightarrow>
          if \<not> is_float s then Inl (AssertionError ''Scaling parameter should be a float.'')
          else if has_key kdict_param ''scaling_bounds'' then
            (case getitem kdict_param ''scaling_bounds'' of
               Inl e \<Rightarrow> Inl e
             | Inr b \<Rightarrow> tuple_iadd bounds b)
          else tuple_iadd bounds default_bounds)"

definition constant_setup ::
  "kdict \<Rightarrow> pyval list \<Rightarrow> int \<Rightarrow> pyval \<Rightarrow> py_error + (kdict \<times> pyval list)" where
  "constant_setup kdict_param bounds N_D default_bounds =
     (case check_allowed_keys (map fst kdict_param)
             [''type'', ''operation'', ''features'', ''dimension'', ''const'']
             (''An undefined key, '' @ squote)
             (squote @ '', has been provided in a '' @ squote @ ''constant'' @ squote
                @ '' type kernel dict.'') of
        Inl e \<Rightarrow> Inl e
      | Inr u \<Rightarrow>
          (case getitem kdict_param ''const'' of
             Inl e \<Rightarrow> Inl e
           | Inr c \<Rightarrow>
               if \<not> is_float c then Inl (AssertionError ''Constant parameter should be a float.'')
               else (case bounds_or kdict_param bounds default_bounds of
                       Inl e \<Rightarrow> Inl e
                     | Inr bounds' \<Rightarrow> Inr (kdict_param, bounds'))))"

definition gaussian_setup ::
  "kdict \<Rightarrow> pyval list \<Rightarrow> int \<Rightarrow> pyval \<Rightarrow> py_error + (kdict \<times> pyval list)" where
  "gaussian_setup kdict_param bounds N_D default_bounds =
     (if \<not> has_key kdict_param ''width'' then Inl (AssertionError ''An initial width must be set.'')
      else
        (case check_allowed_keys (map fst kdict_param)
                [''type'', ''operation'', ''features'', ''dimension'', ''scaling'', ''width'']
                (''An undefined key, '' @ squote)
                (squote @ '', has been provided in a '' @ squote @ ''gaussian'' @ squote
                   @ '' type kernel dict'') of
           Inl e \<Rightarrow> Inl e
         | Inr u \<Rightarrow>
             (case getitem kdict_param ''width'' of
                Inl e \<Rightarrow> Inl e
              | Inr theta \<Rightarrow>
                  let kdict_param' =
                        (if is_float theta \<or> is_int theta
                         then setitem kdict_param ''width'' (PList (replicate (nat N_D) theta))
                         else kdict_param)
                  in (case bounds_or kdict_param' bounds (tuple_mul default_bounds N_D) of
                        Inl e \<Rightarrow> Inl e
                      | Inr bounds' \<Rightarrow> Inr (kdict_param', bounds')))))"

definition quadratic_setup ::
  "kdict \<Rightarrow> pyval list \<Rightarrow> int \<Rightarrow> pyval \<Rightarrow> py_error + (kdict \<times> pyval list)" where
  "quadratic_setup kdict_param bounds N_D default_bounds =
     (if \<not> (has_key kdict_param ''slope'' \<and> has_key kdict_param ''degree'')
      then Inl (AssertionError ''An initial slope and degree parameter must be set.'')
      else
        (case check_allowed_keys (map fst kdict_param)
                [''type'', ''operation'', ''features'', ''dimension'', ''scaling'', ''slope'',
                 ''degree'']
                (''An undefined key, '' @ squote)
                (squote @ '', has been provided in a '' @ squote @ ''quadratic'' @ squote
                   @ '' type kernel dict'') of
           Inl e \<Rightarrow> Inl e
         | Inr u \<Rightarrow>
             (case getitem kdict_param ''slope'' of
                Inl e \<Rightarrow> Inl e
              | Inr theta \<Rightarrow>
                  let kdict_param' =
                        (if is_float theta \<or> is_int theta
                         then setitem kdict_param ''slope'' (PList (replicate (nat N_D) theta))
                         else kdict_param)
                  in (case bounds_or kdict_param' bounds (tuple_mul default_bounds N_D) of
                        Inl e \<Rightarrow> Inl e
                      | Inr bounds' \<Rightarrow>
                          (case bounds_or kdict_param' bounds' default_bounds of
                             Inl e \<Rightarrow> Inl e
                           | Inr bounds'' \<Rightarrow> Inr (kdict_param', bounds''))))))"

definition laplacian_setup ::
  "kdict \<Rightarrow> pyval list \<Rightarrow> int \<Rightarrow> pyval \<Rightarrow> py_error + (kdict \<times> pyval list)" where
  "laplacian_setup kdict_param bounds N_D default_bounds =
     (if \<not> has_key kdict_param ''width'' then Inl (AssertionError ''An initial width must be set.'')
      else
        (case check_allowed_keys (map fst kdict_param)
                [''type'', ''operation'', ''features'', ''dimension'', ''scaling'', ''width'']
                (''An undefined key, '' @ squote)
                (squote @ '', has been provided in a '' @ squote @ ''laplacian'' @ squote
                   @ '' type kernel dict.'') of
           Inl e \<Rightarrow> Inl e
         | Inr u \<Rightarrow>
             (case getitem kdict_param ''width'' of
                Inl e \<Rightarrow> Inl e
              | Inr theta \<Rightarrow>
                  let kdict_param' =
                        (if is_float theta \<or> is_int theta
                         then setitem kdict_param ''width'' (PList (replicate (nat N_D) theta))
                         else kdict_param)
                  in (case bounds_or kdict_param' bounds (tuple_mul default_bounds N_D) of
                        Inl e \<Rightarrow> Inl e
                      | Inr bounds' \<Rightarrow> Inr (kdict_param', bounds')))))"

subsection \<open>The normalizer \<open>prepare_kernels\<close>\<close>

text \<open>
  The setup routine is found by evaluating the string
  \<open>'_{}_setup(kdict, bounds, N_D, default_bounds)'.format(ktype)\<close>. For a type that is
  a string of letters, digits and underscores this is a call of the function of that
  name: one of the four routines with that signature, \<open>_scaling_setup\<close> (which takes
  three arguments, so the call is a \<open>TypeError\<close>), or an unbound name, whose
  \<open>NameError\<close> is turned into \<open>NotImplementedError\<close>. Any other type value makes
  the string some other Python expression; that is outside the model and reported as
  \<open>EvalOutsideModel\<close>.
\<close>

definition ident_char :: "char \<Rightarrow> bool" where
  "ident_char c =
     (c \<in> set ''abcdefghijklmnopqrstuvwxyzABCDEFGHIJKLMNOPQRSTUVWXYZ0123456789_'')"

definition eval_setup ::
  "pyval \<Rightarrow> kdict \<Rightarrow> pyval list \<Rightarrow> int \<Rightarrow> pyval \<Rightarrow> py_error + (kdict \<times> pyval list)" where
  "eval_setup ktype kdict bounds N_D default_bounds =
     (case ktype of
        PStr t \<Rightarrow>
          if \<not> list_all ident_char t then Inl EvalOutsideModel
          else if t = ''constant'' then constant_setup kdict bounds N_D default_bounds
          else if t = ''gaussian'' then gaussian_setup kdict bounds N_D default_bounds
          else if t = ''quadratic'' then quadratic_setup kdict bounds N_D default_bounds
          else if t = ''laplacian'' then laplacian_setup kdict bounds N_D default_bounds
          else if t = ''scaling'' then Inl TypeError
          else Inl (NotImplementedError (t @ '' kernel not implemented''))
      | _ \<Rightarrow> Inl EvalOutsideModel)"

text \<open>
  Lines 30 to 33: a block with \<open>features\<close> replaces \<open>N_D\<close> by their number, which
  must not exceed the value \<open>N_D\<close> had so far.
\<close>

definition resolve_features :: "kdict \<Rightarrow> int \<Rightarrow> py_error + int" where
  "resolve_features kdict N_D =
     (if has_key kdict ''features'' then
        (case getitem kdict ''features'' of
           Inl e \<Rightarrow> Inl e
         | Inr fs \<Rightarrow>
             (case py_len fs of
                Inl e \<Rightarrow> Inl e
              | Inr n \<Rightarrow>
                  if int n \<le> N_D then Inr (int n)
                  else Inl (AssertionError
                         ''Trying to use greater number of features than available.'')))
      else Inr N_D)"

text \<open>
  Lines 35 to 40. The source compares with \<open>is 'single'\<close>; for the string constants of
  a program CPython interns them, and the model reads the test as equality.
\<close>

definition resolve_dimension :: "kdict \<Rightarrow> int \<Rightarrow> py_error + int" where
  "resolve_dimension kdict N_D =
     (if has_key kdict ''dimension'' then
        (case getitem kdict ''dimension'' of
           Inl e \<Rightarrow> Inl e
         | Inr d \<Rightarrow>
             if d \<notin> set [PStr ''single'', PStr ''features'']
             then Inl (AssertionError
                    (''Can assign parameters in '' @ dquote @ ''single'' @ dquote
                       @ '' dimension, or in the number of '' @ dquote @ ''features'' @ dquote
                       @ ''.''))
             else if d = PStr ''single'' then Inr 1
             else Inr N_D)
      else Inr N_D)"

text \<open>The body of the loop up to the dispatch (lines 26 to 43).\<close>

definition block_common ::
  "kdict \<Rightarrow> pyval list \<Rightarrow> int \<Rightarrow> pyval \<Rightarrow> py_error + (pyval list \<times> int)" where
  "block_common kdict bounds N_D default_bounds =
     (if \<not> has_key kdict ''type''
      then Inl (AssertionError
             (''A kernel type should be set, e.g. '' @ dquote @ ''linear'' @ dquote @ '', ''
                @ dquote @ ''gaussian'' @ dquote @ '', etc''))
      else
        (case resolve_features kdict N_D of
           Inl e \<Rightarrow> Inl e
         | Inr N_D1 \<Rightarrow>
             (case resolve_dimension kdict N_D1 of
                Inl e \<Rightarrow> Inl e
              | Inr N_D2 \<Rightarrow>
                  (case (if has_key kdict ''scaling''
                         then scaling_setup kdict bounds default_bounds
                         else Inr bounds) of
                     Inl e \<Rightarrow> Inl e
                   | Inr bounds' \<Rightarrow> Inr (bounds', N_D2)))))"

text \<open>
  One pass of the loop: the block, the bounds and \<open>N_D\<close> as they are after it. The
  tests \<open>ktype is not 'user'\<close> and \<open>ktype is not 'linear'\<close> are read as inequality.
\<close>

definition prepare_block ::
  "kdict \<Rightarrow> pyval list \<Rightarrow> int \<Rightarrow> pyval \<Rightarrow> py_error + (kdict \<times> pyval list \<times> int)" where
  "prepare_block kdict bounds N_D default_bounds =
     (case block_common kdict bounds N_D default_bounds of
        Inl e \<Rightarrow> Inl e
      | Inr (bounds1, N_D1) \<Rightarrow>
          (case getitem kdict ''type'' of
             Inl e \<Rightarrow> Inl e
           | Inr ktype \<Rightarrow>
               if ktype \<noteq> PStr ''user'' \<and> ktype \<noteq> PStr ''linear'' then
                 (case eval_setup ktype kdict bounds1 N_D1 default_bounds of
                    Inl e \<Rightarrow> Inl e
                  | Inr (kdict', bounds2) \<Rightarrow> Inr (kdict', bounds2, N_D1))
               else Inr (kdict, bounds1, N_D1)))"

text \<open>
  \<open>for key in kernel_dict\<close>: the keys of a dictionary are distinct, so the loop visits
  the entries in order. \<open>bounds\<close> and \<open>N_D\<close> are the loop's variables and are carried
  from one block to the next.
\<close>

fun prepare_loop ::
  "kernel_dict \<Rightarrow> pyval list \<Rightarrow> int \<Rightarrow> pyval \<Rightarrow> py_error + (kernel_dict \<times> pyval list \<times> int)" where
  "prepare_loop [] bounds N_D default_bounds = Inr ([], bounds, N_D)"
| "prepare_loop ((key, kdict) # rest) bounds N_D default_bounds =
     (case prepare_block kdict bounds N_D default_bounds of
        Inl e \<Rightarrow> Inl e
      | Inr (kdict', bounds', N_D') \<Rightarrow>
          (case prepare_loop rest bounds' N_D' default_bounds of
             Inl e \<Rightarrow> Inl e
           | Inr (rest', bounds'', N_D'') \<Rightarrow> Inr ((key, kdict') # rest', bounds'', N_D'')))"

text \<open>Lines 19 to 23: the default bounds, a tuple holding one pair.\<close>

definition default_bounds_of :: "bool \<Rightarrow> pyval" where
  "default_bounds_of eval_gradients =
     (if eval_gradients then PTuple [PTuple [PFloat (1 / 10 ^ 6), PFloat (10 ^ 6)]]
      else PTuple [PTuple [PFloat (1 / 10 ^ 12), PNone]])"

definition prepare_kernels ::
  "kernel_dict \<Rightarrow> pyval \<Rightarrow> bool \<Rightarrow> int \<Rightarrow> py_error + (kernel_dict \<times> pyval list)" where
  "prepare_kernels kernel_dict regularization_bounds eval_gradients N_D =
     (case prepare_loop kernel_dict [] N_D (default_bounds_of eval_gradients) of
        Inl e \<Rightarrow> Inl e
      | Inr (kernel_dict', bounds, N_D') \<Rightarrow>
          Inr (kernel_dict', bounds @ [regularization_bounds]))"

subsection \<open>The codec: \<open>kdict2list\<close>, \<open>kdicts2list\<close>, \<open>list2kdict\<close>\<close>

text \<open>
  \<open>ktype = str(kdict['type'])\<close> is compared with the names of the kernel types. The
  \<open>str\<close> of a value that is not a string is never one of these names, so the
  comparison is an equality with the string value.
\<close>

definition ktype_is :: "pyval \<Rightarrow> string \<Rightarrow> bool" where
  "ktype_is ktype name = (ktype = PStr name)"

text \<open>
  The generic branches (lines 212 to 228) for the key \<open>k\<close>, which is
  \<open>hyperparameters\<close> or \<open>theta\<close>: the value of \<open>theta\<close> and of \<open>N_D\<close> after them.
\<close>

definition generic_theta ::
  "kdict \<Rightarrow> string \<Rightarrow> int option \<Rightarrow> py_error + (pyval \<times> int option)" where
  "generic_theta kdict k N_D =
     (case getitem kdict k of
        Inl e \<Rightarrow> Inl e
      | Inr theta \<Rightarrow>
          (case (if has_key kdict ''features'' then
                   (case getitem kdict ''features'' of
                      Inl e \<Rightarrow> Inl e
                    | Inr fs \<Rightarrow> (case py_len fs of Inl e \<Rightarrow> Inl e | Inr n \<Rightarrow> Inr (int n)))
                 else
                   (case N_D of
                      None \<Rightarrow> (case py_len theta of Inl e \<Rightarrow> Inl e | Inr n \<Rightarrow> Inr (int n))
                    | Some n \<Rightarrow> Inr n)) of
             Inl e \<Rightarrow> Inl e
           | Inr n \<Rightarrow>
               if is_float theta
               then Inr (PList (replicate (nat n) theta), Some n)
               else Inr (theta, Some n)))"

text \<open>
  Lines 191 to 228: \<open>theta\<close> after the two chains of tests, \<open>None\<close> when no branch has
  bound it. The first test is an \<open>if\<close> of its own; the chain that starts at
  \<open>scaled_sqe\<close> runs after it and may assign \<open>theta\<close> again.
\<close>

definition kdict2list_theta ::
  "kdict \<Rightarrow> pyval \<Rightarrow> int option \<Rightarrow> py_error + (pyval option \<times> int option)" where
  "kdict2list_theta kdict ktype N_D =
     (case (if ktype_is ktype ''gaussian'' \<or> ktype_is ktype ''sqe'' \<or> ktype_is ktype ''laplacian''
            then (case getitem kdict ''width'' of
                    Inl e \<Rightarrow> Inl e
                  | Inr w \<Rightarrow> (case py_list w of Inl e \<Rightarrow> Inl e | Inr ws \<Rightarrow> Inr (Some (PList ws))))
            else Inr None) of
        Inl e \<Rightarrow> Inl e
      | Inr theta0 \<Rightarrow>
          if ktype_is ktype ''scaled_sqe'' then
            (case getitem kdict ''d_scaling'' of
               Inl e \<Rightarrow> Inl e
             | Inr d \<Rightarrow>
                 (case py_list d of
                    Inl e \<Rightarrow> Inl e
                  | Inr ds \<Rightarrow>
                      (case getitem kdict ''width'' of
                         Inl e \<Rightarrow> Inl e
                       | Inr w \<Rightarrow>
                           (case py_list w of
                              Inl e \<Rightarrow> Inl e
                            | Inr ws \<Rightarrow> Inr (Some (PList (ds @ ws)), N_D)))))
          else if ktype_is ktype ''quadratic'' then
            (case getitem kdict ''slope'' of
               Inl e \<Rightarrow> Inl e
             | Inr sl \<Rightarrow>
                 (case py_list sl of
                    Inl e \<Rightarrow> Inl e
                  | Inr ss \<Rightarrow>
                      (case getitem kdict ''degree'' of
                         Inl e \<Rightarrow> Inl e
                       | Inr dg \<Rightarrow> Inr (Some (PList (ss @ [dg])), N_D))))
          else if ktype_is ktype ''linear'' then Inr (Some (PList []), N_D)
          else if ktype_is ktype ''constant'' then
            (case getitem kdict ''const'' of
               Inl e \<Rightarrow> Inl e
             | Inr c \<Rightarrow> Inr (Some (PList [c]), N_D))
          else if has_key kdict ''hyperparameters'' then
            (case generic_theta kdict ''hyperparameters'' N_D of
               Inl e \<Rightarrow> Inl e
             | Inr (theta, N_D') \<Rightarrow> Inr (Some theta, N_D'))
          else if has_key kdict ''theta'' then
            (case generic_theta kdict ''theta'' N_D of
               Inl e \<Rightarrow> Inl e
             | Inr (theta, N_D') \<Rightarrow> Inr (Some theta, N_D'))
          else Inr (theta0, N_D))"

text \<open>
  Lines 230 to 239 compute \<open>constrained\<close>, which is not returned; what is left of them
  is the errors they can raise: \<open>len\<close> of a value without length, and the read of
  \<open>theta\<close> when no branch has bound it.
\<close>

definition constrained_check :: "kdict \<Rightarrow> pyval option \<Rightarrow> int option \<Rightarrow> py_error + unit" where
  "constrained_check kdict theta N_D =
     (if has_key kdict ''constrained'' then
        (case getitem kdict ''constrained'' of
           Inl e \<Rightarrow> Inl e
         | Inr constrained \<Rightarrow>
             (case (if has_key kdict ''features'' \<or> N_D = None
                    then (case py_len constrained of Inl e \<Rightarrow> Inl e | Inr n \<Rightarrow> Inr ())
                    else Inr ()) of
                Inl e \<Rightarrow> Inl e
              | Inr u \<Rightarrow> if theta = None then Inl UnboundLocalError else Inr ()))
      else Inr ())"

definition kdict2list :: "kdict \<Rightarrow> int option \<Rightarrow> py_error + (pyval list \<times> pyval)" where
  "kdict2list kdict N_D =
     (case getitem kdict ''type'' of
        Inl e \<Rightarrow> Inl e
      | Inr ktype \<Rightarrow>
          (case (if has_key kdict ''scaling''
                 then (case getitem kdict ''scaling'' of Inl e \<Rightarrow> Inl e | Inr s \<Rightarrow> Inr [s])
                 else Inr []) of
             Inl e \<Rightarrow> Inl e
           | Inr scaling \<Rightarrow>
               (case kdict2list_theta kdict ktype N_D of
                  Inl e \<Rightarrow> Inl e
                | Inr (theta, N_D') \<Rightarrow>
                    (case constrained_check kdict theta N_D' of
                       Inl e \<Rightarrow> Inl e
                     | Inr u \<Rightarrow>
                         (case theta of
                            None \<Rightarrow> Inl UnboundLocalError
                          | Some th \<Rightarrow> Inr (scaling, th))))))"

text \<open>
  \<open>theta[0] + theta[1]\<close> adds a list to a list; anything else on the right is a
  \<open>TypeError\<close>.
\<close>

fun list_add :: "pyval list \<Rightarrow> pyval \<Rightarrow> py_error + pyval list" where
  "list_add xs (PList ys) = Inr (xs @ ys)"
| "list_add xs v = Inl TypeError"

text \<open>
  The flat vector is a numeric array, held as a list of reals. \<open>np.concatenate\<close>
  raises \<open>ValueError\<close> on an empty list of blocks and joins lists of numbers; lists
  with other entries are outside the model (\<open>EvalOutsideModel\<close>).
\<close>

fun to_number :: "pyval \<Rightarrow> real option" where
  "to_number (PFloat x) = Some x"
| "to_number (PInt n) = Some (of_int n)"
| "to_number v = None"

fun to_numbers :: "pyval list \<Rightarrow> py_error + real list" where
  "to_numbers [] = Inr []"
| "to_numbers (v # vs) =
     (case to_number v of
        None \<Rightarrow> Inl EvalOutsideModel
      | Some x \<Rightarrow> (case to_numbers vs of Inl e \<Rightarrow> Inl e | Inr xs \<Rightarrow> Inr (x # xs)))"

definition np_concatenate :: "pyval list list \<Rightarrow> py_error + real list" where
  "np_concatenate hyperparameters =
     (if hyperparameters = [] then Inl ValueError else to_numbers (concat hyperparameters))"

fun kdicts2list_loop :: "kernel_dict \<Rightarrow> int option \<Rightarrow> py_error + pyval list list" where
  "kdicts2list_loop [] N_D = Inr []"
| "kdicts2list_loop ((kernel_key, kdict) # rest) N_D =
     (case kdict2list kdict N_D of
        Inl e \<Rightarrow> Inl e
      | Inr (scaling, theta) \<Rightarrow>
          (case list_add scaling theta of
             Inl e \<Rightarrow> Inl e
           | Inr h \<Rightarrow>
               (case kdicts2list_loop rest N_D of
                  Inl e \<Rightarrow> Inl e
                | Inr hs \<Rightarrow> Inr (h # hs))))"

definition kdicts2list :: "kernel_dict \<Rightarrow> int option \<Rightarrow> py_error + real list" where
  "kdicts2list kernel_dict N_D =
     (case kdicts2list_loop kernel_dict N_D of
        Inl e \<Rightarrow> Inl e
      | Inr hyperparameters \<Rightarrow> np_concatenate hyperparameters)"

text \<open>
  \<open>hyperparameters[ki]\<close> raises \<open>IndexError\<close> beyond the end of the vector. A slice
  \<open>hyperparameters[a:b]\<close> never raises: it holds the entries that exist.
\<close>

definition py_index :: "real list \<Rightarrow> nat \<Rightarrow> py_error + real" where
  "py_index hyperparameters ki =
     (if ki < length hyperparameters then Inr (hyperparameters ! ki) else Inl IndexError)"

definition py_slice :: "real list \<Rightarrow> nat \<Rightarrow> nat \<Rightarrow> pyval" where
  "py_slice hyperparameters a b = PList (map PFloat (take (b - a) (drop a hyperparameters)))"

text \<open>
  \<open>list2kdict\<close> assigns into the caller's dictionary, so an error leaves the
  assignments made before it in place. The pass of the loop over one block is in two
  steps. The first (lines 288 to 290) reads \<open>scaling\<close>.
\<close>

definition list2kdict_scaling :: "real list \<Rightarrow> kdict \<Rightarrow> nat \<Rightarrow> py_error + (kdict \<times> nat)" where
  "list2kdict_scaling hyperparameters kdict ki =
     (if has_key kdict ''scaling'' then
        (case py_index hyperparameters ki of
           Inl e \<Rightarrow> Inl e
         | Inr x \<Rightarrow> Inr (setitem kdict ''scaling'' (PFloat x), ki + 1))
      else Inr (kdict, ki))"

text \<open>
  The second (lines 293 to 330) reads the parameters of the type: the block as it is after
  the step, and either the error raised or the new \<open>ki\<close>. The last branch leaves
  \<open>ki\<close> as it is.
\<close>

definition list2kdict_theta ::
  "real list \<Rightarrow> pyval \<Rightarrow> kdict \<Rightarrow> nat \<Rightarrow> kdict \<times> (py_error + nat)" where
  "list2kdict_theta hyperparameters ktype kdict ki =
     (if ktype = PStr ''gaussian'' \<or> ktype = PStr ''sqe'' \<or> ktype = PStr ''laplacian'' then
        (case getitem kdict ''width'' of
           Inl e \<Rightarrow> (kdict, Inl e)
         | Inr w \<Rightarrow>
             (case py_len w of
                Inl e \<Rightarrow> (kdict, Inl e)
              | Inr N_D \<Rightarrow>
                  (setitem kdict ''width'' (py_slice hyperparameters ki (ki + N_D)),
                   Inr (ki + N_D))))
      else if ktype = PStr ''scaled_sqe'' then
        (case getitem kdict ''width'' of
           Inl e \<Rightarrow> (kdict, Inl e)
         | Inr w \<Rightarrow>
             (case py_len w of
                Inl e \<Rightarrow> (kdict, Inl e)
              | Inr N_D \<Rightarrow>
                  (setitem
                     (setitem kdict ''d_scaling'' (py_slice hyperparameters ki (ki + N_D)))
                     ''width'' (py_slice hyperparameters (ki + N_D) (ki + 2 * N_D)),
                   Inr (ki + 2 * N_D))))
      else if ktype = PStr ''quadratic'' then
        (case getitem kdict ''slope'' of
           Inl e \<Rightarrow> (kdict, Inl e)
         | Inr sl \<Rightarrow>
             (case py_len sl of
                Inl e \<Rightarrow> (kdict, Inl e)
              | Inr N_D \<Rightarrow>
                  let theta = take (N_D + 1) (drop ki hyperparameters)
                  in (setitem
                        (setitem kdict ''slope'' (PList (map PFloat (take N_D theta))))
                        ''degree'' (PList (map PFloat (drop N_D theta))),
                      Inr (ki + N_D + 1))))
      else if ktype = PStr ''linear'' then (kdict, Inr ki)
      else if ktype = PStr ''constant'' then
        (case py_index hyperparameters ki of
           Inl e \<Rightarrow> (kdict, Inl e)
         | Inr x \<Rightarrow> (setitem kdict ''const'' (PFloat x), Inr (ki + 1)))
      else
        (case getitem kdict ''hyperparameters'' of
           Inl e \<Rightarrow> (kdict, Inl e)
         | Inr h \<Rightarrow>
             (case py_len h of
                Inl e \<Rightarrow> (kdict, Inl e)
              | Inr N_D \<Rightarrow>
                  (setitem kdict ''hyperparameters'' (py_slice hyperparameters ki (ki + N_D)),
                   Inr ki))))"

definition list2kdict_block :: "real list \<Rightarrow> kdict \<Rightarrow> nat \<Rightarrow> kdict \<times> (py_error + nat)" where
  "list2kdict_block hyperparameters kdict ki =
     (case getitem kdict ''type'' of
        Inl e \<Rightarrow> (kdict, Inl e)
      | Inr ktype \<Rightarrow>
          (case list2kdict_scaling hyperparameters kdict ki of
             Inl e \<Rightarrow> (kdict, Inl e)
           | Inr (kdict1, ki1) \<Rightarrow> list2kdict_theta hyperparameters ktype kdict1 ki1))"

text \<open>
  The loop: the caller's dictionary as the call leaves it, and the error if one was
  raised. The blocks after a failing one are untouched.
\<close>

fun list2kdict_loop :: "real list \<Rightarrow> kernel_dict \<Rightarrow> nat \<Rightarrow> kernel_dict \<times> py_error option" where
  "list2kdict_loop hyperparameters [] ki = ([], None)"
| "list2kdict_loop hyperparameters ((key, kdict) # rest) ki =
     (case list2kdict_block hyperparameters kdict ki of
        (kdict', Inl e) \<Rightarrow> ((key, kdict') # rest, Some e)
      | (kdict', Inr ki') \<Rightarrow>
          (case list2kdict_loop hyperparameters rest ki' of
             (rest', r) \<Rightarrow> ((key, kdict') # rest', r)))"

text \<open>What the call returns, and the state of the caller's dictionary after the call.\<close>

definition list2kdict :: "real list \<Rightarrow> kernel_dict \<Rightarrow> py_error + kernel_dict" where
  "list2kdict hyperparameters kernel_dict =
     (case list2kdict_loop hyperparameters kernel_dict 0 of
        (kernel_dict', None) \<Rightarrow> Inr kernel_dict'
      | (kernel_dict', Some e) \<Rightarrow> Inl e)"

definition list2kdict_state :: "real list \<Rightarrow> kernel_dict \<Rightarrow> kernel_dict" where
  "list2kdict_state hyperparameters kernel_dict =
     fst (list2kdict_loop hyperparameters kernel_dict 0)"

subsection \<open>What decoding reads from the flat vector\<close>

text \<open>\<open>len(kdict[k])\<close> where it is defined, and whether it is defined.\<close>

definition seq_len :: "kdict \<Rightarrow> string \<Rightarrow> nat" where
  "seq_len kdict k =
     (case map_of kdict k of
        None \<Rightarrow> 0
      | Some v \<Rightarrow> (case py_len v of Inl e \<Rightarrow> 0 | Inr n \<Rightarrow> n))"

definition has_len :: "kdict \<Rightarrow> string \<Rightarrow> bool" where
  "has_len kdict k =
     (case map_of kdict k of
        None \<Rightarrow> False
      | Some v \<Rightarrow> (case py_len v of Inl e \<Rightarrow> False | Inr n \<Rightarrow> True))"

text \<open>
  The number of elements a block's shape requires, in the words of the specification:
  one for \<open>scaling\<close>, then \<open>len(width)\<close> for gaussian, sqe and laplacian,
  \<open>2 * len(width)\<close> for scaled\_sqe, \<open>len(slope) + 1\<close> for quadratic, none for
  linear, one for constant, and \<open>len(hyperparameters)\<close> otherwise.
\<close>

definition consumption :: "kdict \<Rightarrow> nat" where
  "consumption kdict =
     (if has_key kdict ''scaling'' then 1 else 0) +
     (let ktype = map_of kdict ''type'' in
      if ktype = Some (PStr ''gaussian'') \<or> ktype = Some (PStr ''sqe'')
           \<or> ktype = Some (PStr ''laplacian'')
      then seq_len kdict ''width''
      else if ktype = Some (PStr ''scaled_sqe'') then 2 * seq_len kdict ''width''
      else if ktype = Some (PStr ''quadratic'') then seq_len kdict ''slope'' + 1
      else if ktype = Some (PStr ''linear'') then 0
      else if ktype = Some (PStr ''constant'') then 1
      else seq_len kdict ''hyperparameters'')"

definition cumulative_consumption :: "kernel_dict \<Rightarrow> nat" where
  "cumulative_consumption kernel_dict = sum_list (map (\<lambda>(key, kdict). consumption kdict) kernel_dict)"

text \<open>
  The positions that \<open>list2kdict\<close> reads with an index (and not with a slice) in a
  block entered with the counter at \<open>ki\<close>: the block's \<open>scaling\<close>, and the
  \<open>const\<close> of a constant block.
\<close>

definition index_reads :: "kdict \<Rightarrow> nat \<Rightarrow> nat list" where
  "index_reads kdict ki =
     (if has_key kdict ''scaling'' then [ki] else []) @
     (if map_of kdict ''type'' = Some (PStr ''constant'')
      then [ki + (if has_key kdict ''scaling'' then 1 else 0)]
      else [])"

text \<open>
  What a block adds to the counter \<open>ki\<close>: as its consumption, but a block of any
  other type than the named ones adds nothing for its \<open>hyperparameters\<close>.
\<close>

definition ki_advance :: "kdict \<Rightarrow> nat" where
  "ki_advance kdict =
     (if has_key kdict ''scaling'' then 1 else 0) +
     (let ktype = map_of kdict ''type'' in
      if ktype = Some (PStr ''gaussian'') \<or> ktype = Some (PStr ''sqe'')
           \<or> ktype = Some (PStr ''laplacian'')
      then seq_len kdict ''width''
      else if ktype = Some (PStr ''scaled_sqe'') then 2 * seq_len kdict ''width''
      else if ktype = Some (PStr ''quadratic'') then seq_len kdict ''slope'' + 1
      else if ktype = Some (PStr ''linear'') then 0
      else if ktype = Some (PStr ''constant'') then 1
      else 0)"

fun all_index_reads :: "kernel_dict \<Rightarrow> nat \<Rightarrow> nat list" where
  "all_index_reads [] ki = []"
| "all_index_reads ((key, kdict) # rest) ki =
     index_reads kdict ki @ all_index_reads rest (ki + ki_advance kdict)"

text \<open>
  A block has the shape decoding expects when it has a type and the parameter whose
  length decoding takes is there and has a length.
\<close>

definition shaped_block :: "kdict \<Rightarrow> bool" where
  "shaped_block kdict =
     (let ktype = map_of kdict ''type'' in
      if ktype = None then False
      else if ktype = Some (PStr ''gaussian'') \<or> ktype = Some (PStr ''sqe'')
           \<or> ktype = Some (PStr ''laplacian'') \<or> ktype = Some (PStr ''scaled_sqe'')
      then has_len kdict ''width''
      else if ktype = Some (PStr ''quadratic'') then has_len kdict ''slope''
      else if ktype = Some (PStr ''linear'') \<or> ktype = Some (PStr ''constant'') then True
      else has_len kdict ''hyperparameters'')"

fun shaped :: "kernel_dict \<Rightarrow> bool" where
  "shaped [] = True"
| "shaped ((key, kdict) # rest) = (shaped_block kdict \<and> shaped rest)"

subsection \<open>The dimension of a block, as the specification resolves it\<close>

text \<open>
  In the words of the specification: \<open>len(features)\<close> if the block has features, else
  the ambient dimension passed by the caller, and 1 when \<open>dimension\<close> is \<open>single\<close>.
\<close>

definition resolved_dimension :: "kdict \<Rightarrow> int \<Rightarrow> int" where
  "resolved_dimension kdict ambient =
     (if map_of kdict ''dimension'' = Some (PStr ''single'') then 1
      else if has_key kdict ''features'' then int (seq_len kdict ''features'')
      else ambient)"

subsection \<open>The default entries of the bounds, block by block\<close>






subsection \<open>Kernel dictionaries used as examples\<close>

definition one_feature_then_scalar :: kernel_dict where
  "one_feature_then_scalar =
     [(''k1'', [(''type'', PStr ''gaussian''), (''features'', PList [PInt 0]),
                (''width'', PFloat 1)]),
      (''k2'', [(''type'', PStr ''gaussian''), (''width'', PFloat 2)])]"


definition user_then_constant :: kernel_dict where
  "user_then_constant =
     [(''a'', [(''type'', PStr ''user''), (''hyperparameters'', PList [PFloat 1, PFloat 2])]),
      (''b'', [(''type'', PStr ''constant''), (''const'', PFloat 3)])]"

definition gaussian_then_constant :: kernel_dict where
  "gaussian_then_constant =
     [(''a'', [(''type'', PStr ''gaussian''), (''width'', PList [PFloat 1])]),
      (''b'', [(''type'', PStr ''constant''), (''const'', PFloat 2)])]"

definition gaussian_pair :: kernel_dict where
  "gaussian_pair =
     [(''k1'', [(''type'', PStr ''gaussian''), (''width'', PList [PFloat 1, PFloat 1])])]"

definition gaussian_pair_constant :: kernel_dict where
  "gaussian_pair_constant =
     [(''k1'', [(''type'', PStr ''gaussian''), (''width'', PList [PInt 1, PInt 1])]),
      (''k2'', [(''type'', PStr ''constant''), (''const'', PFloat 1)])]"

definition features_then_plain :: kernel_dict where
  "features_then_plain =
     [(''k1'', [(''type'', PStr ''gaussian''), (''features'', PList [PInt 0, PInt 1]),
                (''width'', PFloat 1)]),
      (''k2'', [(''type'', PStr ''gaussian''), (''width'', PFloat 2)])]"

definition bounds_override :: pyval where
  "bounds_override = PTuple [PTuple [PFloat (1 / 10), PFloat 2]]"

definition gaussian_with_bounds :: kdict where
  "gaussian_with_bounds =
     [(''type'', PStr ''gaussian''), (''width'', PList [PFloat 1]), (''bounds'', bounds_override)]"

definition constant_with_bounds :: kdict where
  "constant_with_bounds =
     [(''type'', PStr ''constant''), (''const'', PFloat 1), (''bounds'', bounds_override)]"

definition laplacian_with_bounds :: kdict where
  "laplacian_with_bounds =
     [(''type'', PStr ''laplacian''), (''width'', PList [PFloat 1]), (''bounds'', bounds_override)]"

definition quadratic_with_bounds :: kdict where
  "quadratic_with_bounds =
     [(''type'', PStr ''quadratic''), (''slope'', PList [PFloat 1]), (''degree'', PFloat 2),
      (''bounds'', bounds_override)]"

definition sqe_block :: kdict where
  "sqe_block = [(''type'', PStr ''sqe''), (''width'', PList [PFloat 1, PFloat 2])]"

definition scaled_sqe_block :: kdict where
  "scaled_sqe_block =
     [(''type'', PStr ''scaled_sqe''), (''d_scaling'', PList [PFloat 3, PFloat 4]),
      (''width'', PList [PFloat 1, PFloat 2])]"

definition sqe_with_features :: kdict where
  "sqe_with_features =
     [(''type'', PStr ''sqe''), (''features'', PList [PInt 0, PInt 1]),
      (''width'', PList [PFloat 1, PFloat 2])]"

definition gaussian_scalar_width :: kernel_dict where
  "gaussian_scalar_width = [(''k'', [(''type'', PStr ''gaussian''), (''width'', PFloat 2)])]"

definition regularization_01 :: pyval where
  "regularization_01 = PTuple [PInt 0, PInt 1]"

section \<open>Properties of the normalizer\<close>

subsection \<open>Dictionaries and the allow-lists\<close>

lemma has_key_iff_keys: "has_key d k \<longleftrightarrow> k \<in> set (map fst d)"
  by (simp add: has_key_def map_of_eq_None_iff)


lemma getitem_has_key: "has_key d k \<Longrightarrow> \<exists>v. getitem d k = Inr v"
  by (auto simp: has_key_def getitem_def)

lemma check_allowed_keys_Inr:
  "check_allowed_keys ks allowed m1 m2 = Inr u \<longleftrightarrow> set ks \<subseteq> set allowed"
  by (induction ks) auto

lemma check_allowed_keys_Inl:
  "check_allowed_keys ks allowed m1 m2 = Inl e \<Longrightarrow> \<exists>k. e = AssertionError (m1 @ k @ m2)"
  by (induction ks) (auto split: if_splits)

lemma check_allowed_keys_rejects:
  assumes "has_key kdict k" and "k \<notin> set allowed"
  shows "\<exists>k'. check_allowed_keys (map fst kdict) allowed m1 m2 = Inl (AssertionError (m1 @ k' @ m2))"
proof (cases "check_allowed_keys (map fst kdict) allowed m1 m2")
  case (Inl e)
  then show ?thesis using check_allowed_keys_Inl by blast
next
  case (Inr u)
  then have "set (map fst kdict) \<subseteq> set allowed" by (simp add: check_allowed_keys_Inr)
  with assms show ?thesis by (auto simp: has_key_iff_keys)
qed

lemma concat_replicate_single: "concat (replicate n [x]) = replicate n x"
  by (induction n) auto







subsection \<open>The dimension of a block and the width of a gaussian block\<close>

lemma block_common_dimension:
  assumes "block_common kdict bounds N_D db = Inr (bounds', N_D')"
  shows "N_D' = resolved_dimension kdict N_D"
proof -
  from assms obtain N1 where
      f: "resolve_features kdict N_D = Inr N1" and d: "resolve_dimension kdict N1 = Inr N_D'"
    by (auto simp: block_common_def split: sum.splits if_splits)
  from f have N1: "N1 = (if has_key kdict ''features'' then int (seq_len kdict ''features'') else N_D)"
    by (auto simp: resolve_features_def seq_len_def getitem_def has_key_def
          split: sum.splits if_splits option.splits)
  from d have "N_D' = (if map_of kdict ''dimension'' = Some (PStr ''single'') then 1 else N1)"
    by (auto simp: resolve_dimension_def getitem_def has_key_def
          split: sum.splits if_splits option.splits)
  with N1 show ?thesis by (simp add: resolved_dimension_def)
qed

lemma prepare_block_gaussian_width:
  assumes "prepare_block kdict bounds N_D db = Inr (kdict', bounds', N_D')"
      and "map_of kdict ''type'' = Some (PStr ''gaussian'')"
      and "map_of kdict ''width'' = Some theta"
      and "is_float theta \<or> is_int theta"
  shows "map_of kdict' ''width'' = Some (PList (replicate (nat N_D') theta))
         \<and> N_D' = resolved_dimension kdict N_D"
proof -
  from assms(1,2) obtain bounds1 where
      bc: "block_common kdict bounds N_D db = Inr (bounds1, N_D')"
    and gs: "gaussian_setup kdict bounds1 N_D' db = Inr (kdict', bounds')"
    by (auto simp: prepare_block_def getitem_def eval_setup_def ident_char_def
          split: sum.splits if_splits)
  from gs assms(3,4) have "kdict' = setitem kdict ''width'' (PList (replicate (nat N_D') theta))"
    by (auto simp: gaussian_setup_def getitem_def Let_def split: sum.splits if_splits)
  then have "map_of kdict' ''width'' = Some (PList (replicate (nat N_D') theta))"
    by (simp add: setitem_def update_conv')
  with block_common_dimension[OF bc] show ?thesis by simp
qed

lemma first_block_scalar_width:
  assumes "prepare_kernels ((key, kdict) # rest) rb eg N_D = Inr (kernel_dict', bounds)"
      and "map_of kdict ''type'' = Some (PStr ''gaussian'')"
      and "map_of kdict ''width'' = Some theta"
      and "is_float theta \<or> is_int theta"
  shows "\<exists>kdict' rest'. kernel_dict' = (key, kdict') # rest'
           \<and> map_of kdict' ''width'' =
               Some (PList (replicate (nat (resolved_dimension kdict N_D)) theta))"
proof -
  from assms(1) obtain kdict' bounds' N_D' rest' where
      blk: "prepare_block kdict [] N_D (default_bounds_of eg) = Inr (kdict', bounds', N_D')"
    and kd: "kernel_dict' = (key, kdict') # rest'"
    by (auto simp: prepare_kernels_def split: sum.splits)
  from prepare_block_gaussian_width[OF blk assms(2,3,4)] kd show ?thesis by auto
qed

subsection \<open>The entries appended by a block\<close>























subsection \<open>The loop over the blocks\<close>

lemma eval_setup_sqe:
  "eval_setup (PStr ''sqe'') kdict bounds N_D db =
     Inl (NotImplementedError (''sqe'' @ '' kernel not implemented''))"
  by (simp add: eval_setup_def ident_char_def)

lemma eval_setup_scaled_sqe:
  "eval_setup (PStr ''scaled_sqe'') kdict bounds N_D db =
     Inl (NotImplementedError (''scaled_sqe'' @ '' kernel not implemented''))"
  by (simp add: eval_setup_def ident_char_def)

lemma prepare_block_unsupported:
  assumes "map_of kdict ''type'' = Some (PStr t)" and "t = ''sqe'' \<or> t = ''scaled_sqe''"
  shows "prepare_block kdict bounds N_D db =
           (case block_common kdict bounds N_D db of
              Inl e \<Rightarrow> Inl e
            | Inr r \<Rightarrow> Inl (NotImplementedError (t @ '' kernel not implemented'')))"
proof (cases "block_common kdict bounds N_D db")
  case (Inl e)
  then show ?thesis by (simp add: prepare_block_def)
next
  case (Inr r)
  obtain bounds1 N_D1 where r: "r = (bounds1, N_D1)" by (cases r)
  from assms(2) show ?thesis
  proof
    assume t: "t = ''sqe''"
    with assms(1) have g: "getitem kdict ''type'' = Inr (PStr ''sqe'')"
      by (simp add: getitem_def)
    show ?thesis
      unfolding prepare_block_def Inr r g t by (simp add: eval_setup_sqe)
  next
    assume t: "t = ''scaled_sqe''"
    with assms(1) have g: "getitem kdict ''type'' = Inr (PStr ''scaled_sqe'')"
      by (simp add: getitem_def)
    show ?thesis
      unfolding prepare_block_def Inr r g t by (simp add: eval_setup_scaled_sqe)
  qed
qed


lemma prepare_loop_append:
  "prepare_loop (pre @ rest) bounds N_D db =
     (case prepare_loop pre bounds N_D db of
        Inl e \<Rightarrow> Inl e
      | Inr (pre', bounds', N_D') \<Rightarrow>
          (case prepare_loop rest bounds' N_D' db of
             Inl e \<Rightarrow> Inl e
           | Inr (rest', bounds'', N_D'') \<Rightarrow> Inr (pre' @ rest', bounds'', N_D'')))"
proof (induction pre arbitrary: bounds N_D)
  case Nil
  show ?case by (simp split: sum.splits prod.splits)
next
  case (Cons entry pre)
  obtain key kdict where entry: "entry = (key, kdict)" by (cases entry)
  show ?case
  proof (cases "prepare_block kdict bounds N_D db")
    case (Inl e)
    then show ?thesis by (simp add: entry)
  next
    case (Inr r)
    then obtain kdict1 bounds1 N_D1 where r: "r = (kdict1, bounds1, N_D1)" by (cases r) auto
    show ?thesis
      by (simp add: entry Inr r Cons.IH split: sum.splits prod.splits)
  qed
qed

lemma prepare_block_gaussian_pair: "prepare_block [(''type'', PStr ''gaussian''), (''width'', PList [PInt 1, PInt 1])] bounds N_D
     (PTuple [dp]) =
   Inr ([(''type'', PStr ''gaussian''), (''width'', PList [PInt 1, PInt 1])],
        bounds @ replicate (nat N_D) dp, N_D)"
  by (simp add: prepare_block_def block_common_def has_key_def getitem_def resolve_features_def
        resolve_dimension_def eval_setup_def ident_char_def bounds_or_def gaussian_setup_def
        concat_replicate_single)

lemma prepare_block_constant_one: "prepare_block [(''type'', PStr ''constant''), (''const'', PFloat 1)] bounds N_D
     (PTuple [dp]) =
   Inr ([(''type'', PStr ''constant''), (''const'', PFloat 1)], bounds @ [dp], N_D)"
  by (simp add: prepare_block_def block_common_def has_key_def getitem_def resolve_features_def
        resolve_dimension_def eval_setup_def ident_char_def bounds_or_def constant_setup_def)

section \<open>Properties of the decoder\<close>

lemma getitem_setitem_other: "k' \<noteq> k \<Longrightarrow> getitem (setitem d k v) k' = getitem d k'"
  by (simp add: getitem_def setitem_def update_conv')

lemma has_len_getitem:
  "has_len kdict k \<Longrightarrow> \<exists>v. getitem kdict k = Inr v \<and> py_len v = Inr (seq_len kdict k)"
  by (auto simp: has_len_def getitem_def seq_len_def split: option.splits sum.splits)

lemma list2kdict_scaling_cases:
  "list2kdict_scaling hp kdict ki =
     (if has_key kdict ''scaling'' \<and> length hp \<le> ki then Inl IndexError
      else Inr (if has_key kdict ''scaling'' then setitem kdict ''scaling'' (PFloat (hp ! ki))
                else kdict,
                ki + (if has_key kdict ''scaling'' then 1 else 0)))"
  by (auto simp: list2kdict_scaling_def py_index_def)

lemma theta_width:
  assumes "ktype = PStr ''gaussian'' \<or> ktype = PStr ''sqe'' \<or> ktype = PStr ''laplacian''"
      and "getitem kdict ''width'' = Inr w" and "py_len w = Inr n"
  shows "snd (list2kdict_theta hp ktype kdict ki) = Inr (ki + n)"
  using assms by (auto simp: list2kdict_theta_def)

lemma theta_scaled:
  assumes "ktype = PStr ''scaled_sqe''"
      and "getitem kdict ''width'' = Inr w" and "py_len w = Inr n"
  shows "snd (list2kdict_theta hp ktype kdict ki) = Inr (ki + 2 * n)"
  using assms by (simp add: list2kdict_theta_def)

lemma theta_quadratic:
  assumes "ktype = PStr ''quadratic''"
      and "getitem kdict ''slope'' = Inr w" and "py_len w = Inr n"
  shows "snd (list2kdict_theta hp ktype kdict ki) = Inr (ki + n + 1)"
  using assms by (simp add: list2kdict_theta_def Let_def)

lemma theta_linear: "snd (list2kdict_theta hp (PStr ''linear'') kdict ki) = Inr ki"
  by (simp add: list2kdict_theta_def)

lemma theta_constant:
  "snd (list2kdict_theta hp (PStr ''constant'') kdict ki) =
     (if length hp \<le> ki then Inl IndexError else Inr (ki + 1))"
  by (auto simp: list2kdict_theta_def py_index_def)

lemma theta_other:
  assumes "ktype \<noteq> PStr ''gaussian''" "ktype \<noteq> PStr ''sqe''" "ktype \<noteq> PStr ''laplacian''"
      "ktype \<noteq> PStr ''scaled_sqe''" "ktype \<noteq> PStr ''quadratic''" "ktype \<noteq> PStr ''linear''"
      "ktype \<noteq> PStr ''constant''"
      and "getitem kdict ''hyperparameters'' = Inr w" and "py_len w = Inr n"
  shows "snd (list2kdict_theta hp ktype kdict ki) = Inr ki"
  using assms by (simp add: list2kdict_theta_def)


lemma list2kdict_block_result:
  assumes "shaped_block kdict"
  shows "snd (list2kdict_block hp kdict ki) =
           (if \<exists>i \<in> set (index_reads kdict ki). length hp \<le> i then Inl IndexError
            else Inr (ki + ki_advance kdict))"
proof -
  from assms obtain ktype where ty: "map_of kdict ''type'' = Some ktype"
    by (auto simp: shaped_block_def Let_def split: if_splits)
  then have gty: "getitem kdict ''type'' = Inr ktype" by (simp add: getitem_def)
  show ?thesis
  proof (cases "has_key kdict ''scaling'' \<and> length hp \<le> ki")
    case True
    then show ?thesis
      by (simp add: list2kdict_block_def gty list2kdict_scaling_cases index_reads_def)
  next
    case False
    define kdict1 where
      "kdict1 = (if has_key kdict ''scaling'' then setitem kdict ''scaling'' (PFloat (hp ! ki))
                 else kdict)"
    define ki1 where "ki1 = ki + (if has_key kdict ''scaling'' then 1 else 0)"
    have sc: "list2kdict_scaling hp kdict ki = Inr (kdict1, ki1)"
      using False by (simp add: list2kdict_scaling_cases kdict1_def ki1_def)
    have g1: "\<And>k. k \<noteq> ''scaling'' \<Longrightarrow> getitem kdict1 k = getitem kdict k"
      by (simp add: kdict1_def getitem_setitem_other)
    have blk: "snd (list2kdict_block hp kdict ki) = snd (list2kdict_theta hp ktype kdict1 ki1)"
      by (simp add: list2kdict_block_def gty sc)
    have noscal: "\<not> (\<exists>i \<in> set (if has_key kdict ''scaling'' then [ki] else []). length hp \<le> i)"
      using False by auto
    consider
        (is_width) "ktype = PStr ''gaussian'' \<or> ktype = PStr ''sqe'' \<or> ktype = PStr ''laplacian''"
      | (is_scaled) "ktype = PStr ''scaled_sqe''"
      | (is_quadratic) "ktype = PStr ''quadratic''"
      | (is_linear) "ktype = PStr ''linear''"
      | (is_constant) "ktype = PStr ''constant''"
      | (is_other) "ktype \<noteq> PStr ''gaussian''" "ktype \<noteq> PStr ''sqe''" "ktype \<noteq> PStr ''laplacian''"
          "ktype \<noteq> PStr ''scaled_sqe''" "ktype \<noteq> PStr ''quadratic''" "ktype \<noteq> PStr ''linear''"
          "ktype \<noteq> PStr ''constant''"
      by blast
    then show ?thesis
    proof cases
      case is_width
      with assms ty have "has_len kdict ''width''"
        by (auto simp: shaped_block_def)
      then obtain w where w: "getitem kdict ''width'' = Inr w" "py_len w = Inr (seq_len kdict ''width'')"
        using has_len_getitem by blast
      then have "getitem kdict1 ''width'' = Inr w" by (simp add: g1)
      from theta_width[OF is_width this w(2)] have
        "snd (list2kdict_block hp kdict ki) = Inr (ki1 + seq_len kdict ''width'')"
        by (simp add: blk)
      moreover have "ki_advance kdict = (if has_key kdict ''scaling'' then 1 else 0) + seq_len kdict ''width''"
        using is_width ty by (auto simp: ki_advance_def)
      moreover have "index_reads kdict ki = (if has_key kdict ''scaling'' then [ki] else [])"
        using is_width ty by (auto simp: index_reads_def)
      ultimately show ?thesis using noscal by (simp add: ki1_def)
    next
      case is_scaled
      with assms ty have "has_len kdict ''width''"
        by (auto simp: shaped_block_def)
      then obtain w where w: "getitem kdict ''width'' = Inr w" "py_len w = Inr (seq_len kdict ''width'')"
        using has_len_getitem by blast
      then have "getitem kdict1 ''width'' = Inr w" by (simp add: g1)
      from theta_scaled[OF is_scaled this w(2)] have
        "snd (list2kdict_block hp kdict ki) = Inr (ki1 + 2 * seq_len kdict ''width'')"
        by (simp add: blk)
      moreover have "ki_advance kdict = (if has_key kdict ''scaling'' then 1 else 0) + 2 * seq_len kdict ''width''"
        using is_scaled ty by (simp add: ki_advance_def)
      moreover have "index_reads kdict ki = (if has_key kdict ''scaling'' then [ki] else [])"
        using is_scaled ty by (simp add: index_reads_def)
      ultimately show ?thesis using noscal by (simp add: ki1_def)
    next
      case is_quadratic
      with assms ty have "has_len kdict ''slope''"
        by (simp add: shaped_block_def)
      then obtain w where w: "getitem kdict ''slope'' = Inr w" "py_len w = Inr (seq_len kdict ''slope'')"
        using has_len_getitem by blast
      then have "getitem kdict1 ''slope'' = Inr w" by (simp add: g1)
      from theta_quadratic[OF is_quadratic this w(2)] have
        "snd (list2kdict_block hp kdict ki) = Inr (ki1 + seq_len kdict ''slope'' + 1)"
        by (simp add: blk)
      moreover have "ki_advance kdict = (if has_key kdict ''scaling'' then 1 else 0) + (seq_len kdict ''slope'' + 1)"
        using is_quadratic ty by (simp add: ki_advance_def)
      moreover have "index_reads kdict ki = (if has_key kdict ''scaling'' then [ki] else [])"
        using is_quadratic ty by (simp add: index_reads_def)
      ultimately show ?thesis using noscal by (simp add: ki1_def)
    next
      case is_linear
      have "snd (list2kdict_block hp kdict ki) = Inr ki1"
        by (simp add: blk is_linear theta_linear)
      moreover have "ki_advance kdict = (if has_key kdict ''scaling'' then 1 else 0)"
        using is_linear ty by (simp add: ki_advance_def)
      moreover have "index_reads kdict ki = (if has_key kdict ''scaling'' then [ki] else [])"
        using is_linear ty by (simp add: index_reads_def)
      ultimately show ?thesis using noscal by (simp add: ki1_def)
    next
      case is_constant
      have "snd (list2kdict_block hp kdict ki) =
              (if length hp \<le> ki1 then Inl IndexError else Inr (ki1 + 1))"
        by (simp add: blk is_constant theta_constant)
      moreover have "ki_advance kdict = (if has_key kdict ''scaling'' then 1 else 0) + 1"
        using is_constant ty by (simp add: ki_advance_def)
      moreover have "index_reads kdict ki = (if has_key kdict ''scaling'' then [ki] else []) @ [ki1]"
        using is_constant ty by (simp add: index_reads_def ki1_def)
      ultimately show ?thesis using noscal by (auto simp: ki1_def)
    next
      case is_other
      with assms ty have "has_len kdict ''hyperparameters''"
        by (simp add: shaped_block_def)
      then obtain w where w: "getitem kdict ''hyperparameters'' = Inr w"
          "py_len w = Inr (seq_len kdict ''hyperparameters'')"
        using has_len_getitem by blast
      then have "getitem kdict1 ''hyperparameters'' = Inr w" by (simp add: g1)
      from theta_other[OF is_other this w(2)] have
        "snd (list2kdict_block hp kdict ki) = Inr ki1"
        by (simp add: blk)
      moreover have "ki_advance kdict = (if has_key kdict ''scaling'' then 1 else 0)"
        using is_other ty by (simp add: ki_advance_def)
      moreover have "index_reads kdict ki = (if has_key kdict ''scaling'' then [ki] else [])"
        using is_other ty by (simp add: index_reads_def)
      ultimately show ?thesis using noscal by (simp add: ki1_def)
    qed
  qed
qed


lemma list2kdict_loop_result:
  assumes "shaped kernel_dict"
  shows "snd (list2kdict_loop hp kernel_dict ki) =
           (if \<exists>i \<in> set (all_index_reads kernel_dict ki). length hp \<le> i then Some IndexError
            else None)"
  using assms
proof (induction kernel_dict arbitrary: ki)
  case Nil
  show ?case by simp
next
  case (Cons entry rest)
  obtain key kdict where entry: "entry = (key, kdict)" by (cases entry)
  with Cons.prems have sb: "shaped_block kdict" and sr: "shaped rest" by simp_all
  obtain kdict' r where blk: "list2kdict_block hp kdict ki = (kdict', r)"
    by (cases "list2kdict_block hp kdict ki")
  with list2kdict_block_result[OF sb, of hp ki] have r:
    "r = (if \<exists>i \<in> set (index_reads kdict ki). length hp \<le> i then Inl IndexError
          else Inr (ki + ki_advance kdict))"
    by simp
  show ?case
  proof (cases "\<exists>i \<in> set (index_reads kdict ki). length hp \<le> i")
    case True
    with r have "r = Inl IndexError" by simp
    with blk True show ?thesis by (auto simp: entry)
  next
    case False
    with r have r': "r = Inr (ki + ki_advance kdict)" by simp
    obtain rest' q where rst: "list2kdict_loop hp rest (ki + ki_advance kdict) = (rest', q)"
      by (cases "list2kdict_loop hp rest (ki + ki_advance kdict)")
    with Cons.IH[OF sr, of "ki + ki_advance kdict"] have
      "q = (if \<exists>i \<in> set (all_index_reads rest (ki + ki_advance kdict)). length hp \<le> i
            then Some IndexError else None)"
      by simp
    with blk r' rst False show ?thesis by (auto simp: entry)
  qed
qed

lemma ki_advance_le_consumption: "ki_advance kdict \<le> consumption kdict"
  by (simp add: ki_advance_def consumption_def Let_def)

lemma index_reads_below_consumption:
  "i \<in> set (index_reads kdict ki) \<Longrightarrow> i < ki + consumption kdict"
  by (auto simp: index_reads_def consumption_def Let_def split: if_splits)

lemma all_index_reads_below_consumption:
  "i \<in> set (all_index_reads kernel_dict ki) \<Longrightarrow> i < ki + cumulative_consumption kernel_dict"
proof (induction kernel_dict arbitrary: ki)
  case Nil
  then show ?case by simp
next
  case (Cons entry rest)
  obtain key kdict where entry: "entry = (key, kdict)" by (cases entry)
  from Cons.prems entry consider
      "i \<in> set (index_reads kdict ki)"
    | "i \<in> set (all_index_reads rest (ki + ki_advance kdict))"
    by auto
  then show ?case
  proof cases
    case 1
    then have "i < ki + consumption kdict" by (rule index_reads_below_consumption)
    then show ?thesis by (simp add: entry cumulative_consumption_def)
  next
    case 2
    then have "i < ki + ki_advance kdict + cumulative_consumption rest" by (rule Cons.IH)
    with ki_advance_le_consumption[of kdict] show ?thesis
      by (simp add: entry cumulative_consumption_def)
  qed
qed

lemmas prepare_defs = prepare_kernels_def prepare_block_def block_common_def has_key_def
  getitem_def resolve_features_def resolve_dimension_def eval_setup_def ident_char_def
  setitem_def bounds_or_def default_bounds_of_def

section \<open>The claims about the normalizer\<close>




text \<open>
  C2. The claim is that a recognized block may carry \<open>bounds\<close>, which then replace the
  default entries. Every setup routine has the branch that appends the block's
  \<open>bounds\<close>, but none has \<open>bounds\<close> in its \<open>allowed_keys\<close>, so the loop over the
  keys raises before the branch is reached: a gaussian, a constant, a laplacian and a
  quadratic block with \<open>bounds\<close> are each rejected with the assertion that names
  the key.
\<close>

theorem bounds_key_is_rejected:
  "prepare_kernels [(''k'', gaussian_with_bounds)] rb eg N_D =
     Inl (AssertionError (''An undefined key, '' @ squote @ ''bounds'' @ squote
            @ '', has been provided in a '' @ squote @ ''gaussian'' @ squote
            @ '' type kernel dict''))
   \<and> prepare_kernels [(''k'', constant_with_bounds)] rb eg N_D =
     Inl (AssertionError (''An undefined key, '' @ squote @ ''bounds'' @ squote
            @ '', has been provided in a '' @ squote @ ''constant'' @ squote
            @ '' type kernel dict.''))
   \<and> prepare_kernels [(''k'', laplacian_with_bounds)] rb eg N_D =
     Inl (AssertionError (''An undefined key, '' @ squote @ ''bounds'' @ squote
            @ '', has been provided in a '' @ squote @ ''laplacian'' @ squote
            @ '' type kernel dict.''))
   \<and> prepare_kernels [(''k'', quadratic_with_bounds)] rb eg N_D =
     Inl (AssertionError (''An undefined key, '' @ squote @ ''bounds'' @ squote
            @ '', has been provided in a '' @ squote @ ''quadratic'' @ squote
            @ '' type kernel dict''))"
  by (simp add: prepare_defs gaussian_with_bounds_def constant_with_bounds_def
        laplacian_with_bounds_def quadratic_with_bounds_def gaussian_setup_def
        constant_setup_def laplacian_setup_def quadratic_setup_def)

text \<open>
  C5. The claim is that a quadratic block with \<open>bounds\<close> has them appended twice. The
  two appends are in \<open>_quadratic_setup\<close>, but \<open>bounds\<close> is not in its
  \<open>allowed_keys\<close>: the block is rejected and nothing is appended.
\<close>

theorem quadratic_bounds_key_is_rejected:
  "prepare_kernels [(''k'', quadratic_with_bounds)] rb eg N_D =
     Inl (AssertionError (''An undefined key, '' @ squote @ ''bounds'' @ squote
            @ '', has been provided in a '' @ squote @ ''quadratic'' @ squote
            @ '' type kernel dict''))"
  by (simp add: prepare_defs quadratic_with_bounds_def quadratic_setup_def)

text \<open>
  C3. The claim is that a block without \<open>features\<close> or \<open>dimension\<close> is broadcast
  against the caller's dimension whatever the earlier blocks declare. The loop assigns the
  number of features to \<open>N_D\<close> itself, so the value stays for the blocks that follow:
  with three dimensions and a first block on two features, the scalar width of the second
  block becomes a list of two.
\<close>

theorem dimension_leaks_to_later_block:
  "prepare_kernels features_then_plain rb False 3 =
     Inr ([(''k1'', [(''type'', PStr ''gaussian''), (''features'', PList [PInt 0, PInt 1]),
                     (''width'', PList [PFloat 1, PFloat 1])]),
           (''k2'', [(''type'', PStr ''gaussian''), (''width'', PList [PFloat 2, PFloat 2])])],
          [PTuple [PFloat (1 / 10 ^ 12), PNone], PTuple [PFloat (1 / 10 ^ 12), PNone],
           PTuple [PFloat (1 / 10 ^ 12), PNone], PTuple [PFloat (1 / 10 ^ 12), PNone], rb])"
  by (simp add: prepare_defs features_then_plain_def gaussian_setup_def numeral_2_eq_2)

text \<open>
  C6, as stated: normalizing the gaussian block of widths \<open>[1, 1]\<close> and the constant
  block gives four bounds. The gaussian block gets one default entry for each of the
  \<open>N_D\<close> dimensions, whatever the length of its width: with three dimensions the
  bounds have five entries.
\<close>

theorem bounds_count_three_dimensions:
  "prepare_kernels gaussian_pair_constant regularization_01 False 3 =
     Inr (gaussian_pair_constant,
          [PTuple [PFloat (1 / 10 ^ 12), PNone], PTuple [PFloat (1 / 10 ^ 12), PNone],
           PTuple [PFloat (1 / 10 ^ 12), PNone], PTuple [PFloat (1 / 10 ^ 12), PNone],
           regularization_01])"
  by (simp add: prepare_defs gaussian_pair_constant_def gaussian_setup_def constant_setup_def
        numeral_3_eq_3)

text \<open>
  C6, amended: with \<open>N_D\<close> dimensions the two blocks give \<open>N_D\<close> default entries
  for the gaussian block, one for the constant and the regularization bounds, so four
  entries when \<open>N_D\<close> is two; and whenever \<open>prepare_kernels\<close> returns, the last
  entry of the bounds is the regularization bounds.
\<close>

theorem bounds_count_gaussian_constant:
  "prepare_kernels gaussian_pair_constant regularization_01 False N_D =
     Inr (gaussian_pair_constant,
          replicate (nat N_D) (PTuple [PFloat (1 / 10 ^ 12), PNone])
            @ [PTuple [PFloat (1 / 10 ^ 12), PNone], regularization_01])
   \<and> (prepare_kernels kernel_dict rb eg N_D' = Inr (kernel_dict', bounds)
        \<longrightarrow> bounds \<noteq> [] \<and> last bounds = rb)"
proof
  have db: "default_bounds_of False = PTuple [PTuple [PFloat (1 / 10 ^ 12), PNone]]"
    by (simp add: default_bounds_of_def)
  show "prepare_kernels gaussian_pair_constant regularization_01 False N_D =
     Inr (gaussian_pair_constant,
          replicate (nat N_D) (PTuple [PFloat (1 / 10 ^ 12), PNone])
            @ [PTuple [PFloat (1 / 10 ^ 12), PNone], regularization_01])"
    unfolding prepare_kernels_def db gaussian_pair_constant_def
    by (simp add: prepare_block_gaussian_pair prepare_block_constant_one)
  show "prepare_kernels kernel_dict rb eg N_D' = Inr (kernel_dict', bounds)
        \<longrightarrow> bounds \<noteq> [] \<and> last bounds = rb"
    by (auto simp: prepare_kernels_def split: sum.splits)
qed

text \<open>C6, witness: two dimensions, four entries, the regularization bounds last.\<close>

theorem bounds_count_gaussian_constant_witness:
  "prepare_kernels gaussian_pair_constant regularization_01 False 2 =
     Inr (gaussian_pair_constant,
          [PTuple [PFloat (1 / 10 ^ 12), PNone], PTuple [PFloat (1 / 10 ^ 12), PNone],
           PTuple [PFloat (1 / 10 ^ 12), PNone], regularization_01])
   \<and> length [PTuple [PFloat (1 / 10 ^ 12), PNone], PTuple [PFloat (1 / 10 ^ 12), PNone],
           PTuple [PFloat (1 / 10 ^ 12), PNone], regularization_01] = 4
   \<and> last [PTuple [PFloat (1 / 10 ^ 12), PNone], PTuple [PFloat (1 / 10 ^ 12), PNone],
           PTuple [PFloat (1 / 10 ^ 12), PNone], regularization_01] = regularization_01"
proof -
  let ?bs = "[PTuple [PFloat (1 / 10 ^ 12), PNone], PTuple [PFloat (1 / 10 ^ 12), PNone],
           PTuple [PFloat (1 / 10 ^ 12), PNone], regularization_01]"
  from bounds_count_gaussian_constant
         [of 2 gaussian_pair_constant regularization_01 False 2 gaussian_pair_constant ?bs]
  have h: "prepare_kernels gaussian_pair_constant regularization_01 False 2 =
             Inr (gaussian_pair_constant, ?bs)"
    and l: "prepare_kernels gaussian_pair_constant regularization_01 False 2 =
             Inr (gaussian_pair_constant, ?bs) \<longrightarrow> ?bs \<noteq> [] \<and> last ?bs = regularization_01"
    by (simp_all add: numeral_2_eq_2)
  from h l have "last ?bs = regularization_01" by blast
  with h show ?thesis by simp
qed

text \<open>
  C8. The claim is that a scalar width is broadcast to a list of the length of the
  dimension resolved for its block: the number of features, else the caller's dimension.
  A single gaussian block of width 2.0 with three dimensions does get
  \<open>[2.0, 2.0, 2.0]\<close>. But the length used is the \<open>N_D\<close> of the loop, which an
  earlier block with features has overwritten: after a block on one feature, a block
  without features or dimension, for which three dimensions are resolved, gets a width of
  one element.
\<close>

theorem scalar_width_broadcast_ignores_ambient_dimension:
  "prepare_kernels gaussian_scalar_width rb False 3 =
     Inr ([(''k'', [(''type'', PStr ''gaussian''),
                    (''width'', PList [PFloat 2, PFloat 2, PFloat 2])])],
          [PTuple [PFloat (1 / 10 ^ 12), PNone], PTuple [PFloat (1 / 10 ^ 12), PNone],
           PTuple [PFloat (1 / 10 ^ 12), PNone], rb])
   \<and> prepare_kernels one_feature_then_scalar rb False 3 =
     Inr ([(''k1'', [(''type'', PStr ''gaussian''), (''features'', PList [PInt 0]),
                     (''width'', PList [PFloat 1])]),
           (''k2'', [(''type'', PStr ''gaussian''), (''width'', PList [PFloat 2])])],
          [PTuple [PFloat (1 / 10 ^ 12), PNone], PTuple [PFloat (1 / 10 ^ 12), PNone], rb])
   \<and> resolved_dimension [(''type'', PStr ''gaussian''), (''width'', PFloat 2)] 3 = 3"
  by (simp add: prepare_defs gaussian_scalar_width_def one_feature_then_scalar_def
        gaussian_setup_def resolved_dimension_def numeral_3_eq_3)

text \<open>
  C9, as stated: every kernel dictionary with an sqe or scaled\_sqe block fails with the
  error for an unsupported kernel. The checks of the loop come before the dispatch: an
  sqe block on two features with one dimension fails the assertion on the features.
\<close>

theorem sqe_block_fails_features_check:
  "prepare_kernels [(''k'', sqe_with_features)] regularization_01 False 1 =
     Inl (AssertionError ''Trying to use greater number of features than available.'')"
  by (simp add: prepare_defs sqe_with_features_def)

text \<open>
  C9, amended: a kernel dictionary with an sqe or scaled\_sqe block is never normalized.
  When the blocks before it normalize and the block passes the checks on the type, the
  features, the dimension and the scaling, the error is \<open>NotImplementedError\<close> with the
  message naming the type; otherwise it is the error of the check that failed first. The
  codec handles both types: \<open>kdict2list\<close> returns the width, after \<open>d_scaling\<close> for
  scaled\_sqe, and \<open>list2kdict\<close> assigns them.
\<close>

theorem sqe_not_implemented:
  assumes "map_of kdict ''type'' = Some (PStr t)" and "t = ''sqe'' \<or> t = ''scaled_sqe''"
  shows "prepare_kernels (pre @ (key, kdict) # post) rb eg N_D =
           (case prepare_loop pre [] N_D (default_bounds_of eg) of
              Inl e \<Rightarrow> Inl e
            | Inr (pre', bounds, N_D') \<Rightarrow>
                (case block_common kdict bounds N_D' (default_bounds_of eg) of
                   Inl e \<Rightarrow> Inl e
                 | Inr r \<Rightarrow> Inl (NotImplementedError (t @ '' kernel not implemented''))))
       \<and> kdict2list sqe_block None = Inr ([], PList [PFloat 1, PFloat 2])
       \<and> kdict2list scaled_sqe_block None =
           Inr ([], PList [PFloat 3, PFloat 4, PFloat 1, PFloat 2])
       \<and> list2kdict [5, 6] [(''k'', sqe_block)] =
           Inr [(''k'', [(''type'', PStr ''sqe''), (''width'', PList [PFloat 5, PFloat 6])])]
       \<and> list2kdict [5, 6, 7, 8] [(''k'', scaled_sqe_block)] =
           Inr [(''k'', [(''type'', PStr ''scaled_sqe''),
                         (''d_scaling'', PList [PFloat 5, PFloat 6]),
                         (''width'', PList [PFloat 7, PFloat 8])])]"
proof -
  have normalizer: "prepare_kernels (pre @ (key, kdict) # post) rb eg N_D =
           (case prepare_loop pre [] N_D (default_bounds_of eg) of
              Inl e \<Rightarrow> Inl e
            | Inr (pre', bounds, N_D') \<Rightarrow>
                (case block_common kdict bounds N_D' (default_bounds_of eg) of
                   Inl e \<Rightarrow> Inl e
                 | Inr r \<Rightarrow> Inl (NotImplementedError (t @ '' kernel not implemented''))))"
  proof (cases "prepare_loop pre [] N_D (default_bounds_of eg)")
    case (Inl e)
    then show ?thesis by (simp add: prepare_kernels_def prepare_loop_append)
  next
    case (Inr r)
    then obtain pre' bounds N_D' where r: "r = (pre', bounds, N_D')" by (cases r) auto
    have blk: "prepare_block kdict bounds N_D' (default_bounds_of eg) =
             (case block_common kdict bounds N_D' (default_bounds_of eg) of
                Inl e \<Rightarrow> Inl e
              | Inr r \<Rightarrow> Inl (NotImplementedError (t @ '' kernel not implemented'')))"
      by (rule prepare_block_unsupported[OF assms])
    show ?thesis
    proof (cases "block_common kdict bounds N_D' (default_bounds_of eg)")
      case (Inl e)
      with blk have "prepare_block kdict bounds N_D' (default_bounds_of eg) = Inl e" by simp
      with Inl \<open>prepare_loop pre [] N_D (default_bounds_of eg) = Inr r\<close> r show ?thesis
        by (simp add: prepare_kernels_def prepare_loop_append)
    next
      case (Inr r2)
      with blk have "prepare_block kdict bounds N_D' (default_bounds_of eg) =
          Inl (NotImplementedError (t @ '' kernel not implemented''))" by simp
      with Inr \<open>prepare_loop pre [] N_D (default_bounds_of eg) = Inr r\<close> r show ?thesis
        by (simp add: prepare_kernels_def prepare_loop_append)
    qed
  qed
  have e1: "kdict2list sqe_block None = Inr ([], PList [PFloat 1, PFloat 2])"
    unfolding sqe_block_def by code_simp
  have e2: "kdict2list scaled_sqe_block None =
           Inr ([], PList [PFloat 3, PFloat 4, PFloat 1, PFloat 2])"
    unfolding scaled_sqe_block_def by code_simp
  have d1: "list2kdict [5, 6] [(''k'', sqe_block)] =
           Inr [(''k'', [(''type'', PStr ''sqe''), (''width'', PList [PFloat 5, PFloat 6])])]"
    unfolding sqe_block_def by code_simp
  have d2: "list2kdict [5, 6, 7, 8] [(''k'', scaled_sqe_block)] =
           Inr [(''k'', [(''type'', PStr ''scaled_sqe''),
                         (''d_scaling'', PList [PFloat 5, PFloat 6]),
                         (''width'', PList [PFloat 7, PFloat 8])])]"
    unfolding scaled_sqe_block_def by code_simp
  from normalizer e1 e2 d1 d2 show ?thesis by blast
qed

text \<open>C9, witness: a single sqe block with two dimensions.\<close>

theorem sqe_not_implemented_witness:
  "map_of sqe_block ''type'' = Some (PStr ''sqe'')
   \<and> prepare_kernels [(''k'', sqe_block)] regularization_01 False 2 =
       Inl (NotImplementedError ''sqe kernel not implemented'')"
proof -
  have t: "map_of sqe_block ''type'' = Some (PStr ''sqe'')"
    by (simp add: sqe_block_def)
  have d: "''sqe'' = ''sqe'' \<or> ''sqe'' = ''scaled_sqe''" by simp
  have bc: "block_common sqe_block [] 2 (default_bounds_of False) = Inr ([], 2)"
    by (simp add: sqe_block_def block_common_def has_key_def resolve_features_def
          resolve_dimension_def)
  from sqe_not_implemented [OF t d, of "[]" "''k''" "[]" regularization_01 False 2]
  have "prepare_kernels [(''k'', sqe_block)] regularization_01 False 2 =
       Inl (NotImplementedError ''sqe kernel not implemented'')"
    by (simp add: bc)
  with t show ?thesis by simp
qed

section \<open>The claims about the codec\<close>

text \<open>
  C1. The claim is the round trip: decoding the encoded vector into the dictionary gives
  the dictionary back. The last branch of \<open>list2kdict\<close> does not advance \<open>ki\<close>, so
  the block after a block of a user-defined type is read from the position of that
  block: the constant 3 comes back as 1.
\<close>

theorem roundtrip_breaks_after_generic_block:
  "kdicts2list user_then_constant N_D = Inr [1, 2, 3]
   \<and> list2kdict [1, 2, 3] user_then_constant =
       Inr [(''a'', [(''type'', PStr ''user''),
                     (''hyperparameters'', PList [PFloat 1, PFloat 2])]),
            (''b'', [(''type'', PStr ''constant''), (''const'', PFloat 1)])]"
proof
  show "kdicts2list user_then_constant N_D = Inr [1, 2, 3]"
    by (cases N_D) (simp_all add: user_then_constant_def kdicts2list_def kdict2list_def
          kdict2list_theta_def generic_theta_def constrained_check_def ktype_is_def
          getitem_def has_key_def np_concatenate_def)
  show "list2kdict [1, 2, 3] user_then_constant =
       Inr [(''a'', [(''type'', PStr ''user''),
                     (''hyperparameters'', PList [PFloat 1, PFloat 2])]),
            (''b'', [(''type'', PStr ''constant''), (''const'', PFloat 1)])]"
    unfolding user_then_constant_def by code_simp
qed

text \<open>
  C10. Decoding is not atomic. The vector \<open>[9]\<close> is too short for a gaussian block of
  one width followed by a constant block: the read of the constant raises
  \<open>IndexError\<close>, and the caller's dictionary then already holds the new width 9 in
  the first block.
\<close>

theorem list2kdict_not_atomic:
  "length [9 :: real] < cumulative_consumption gaussian_then_constant
   \<and> list2kdict [9] gaussian_then_constant = Inl IndexError
   \<and> list2kdict_state [9] gaussian_then_constant =
       [(''a'', [(''type'', PStr ''gaussian''), (''width'', PList [PFloat 9])]),
        (''b'', [(''type'', PStr ''constant''), (''const'', PFloat 2)])]"
  unfolding gaussian_then_constant_def by code_simp

text \<open>
  C4, as stated: a flat vector shorter than the cumulative consumption of the dictionary
  makes \<open>list2kdict\<close> fail. The widths are read with a slice, which takes what is
  there: one element decodes into a gaussian block of two widths without an error.
\<close>

theorem short_vector_decodes:
  "length [5 :: real] < cumulative_consumption gaussian_pair
   \<and> list2kdict [5] gaussian_pair =
       Inr [(''k1'', [(''type'', PStr ''gaussian''), (''width'', PList [PFloat 5])])]"
  unfolding gaussian_pair_def by code_simp

text \<open>
  C4, amended: there is no check of the length. On a dictionary whose blocks have the
  shape decoding expects, \<open>list2kdict\<close> fails exactly when one of the reads with an
  index (a block's \<open>scaling\<close>, the \<open>const\<close> of a constant block) is at or beyond the
  end of the vector, and the error is then \<open>IndexError\<close>; it returns exactly when all
  those positions are inside the vector, and so whenever the vector has at least the
  cumulative consumption.
\<close>

theorem list2kdict_fails_iff_index_read_beyond_end:
  assumes "shaped kernel_dict"
  shows "(list2kdict hp kernel_dict = Inl IndexError
            \<longleftrightarrow> (\<exists>i \<in> set (all_index_reads kernel_dict 0). length hp \<le> i))
       \<and> ((\<exists>kernel_dict'. list2kdict hp kernel_dict = Inr kernel_dict')
            \<longleftrightarrow> (\<forall>i \<in> set (all_index_reads kernel_dict 0). i < length hp))
       \<and> (cumulative_consumption kernel_dict \<le> length hp
            \<longrightarrow> (\<exists>kernel_dict'. list2kdict hp kernel_dict = Inr kernel_dict'))"
proof -
  obtain kd' q where loop: "list2kdict_loop hp kernel_dict 0 = (kd', q)"
    by (cases "list2kdict_loop hp kernel_dict 0")
  with list2kdict_loop_result[OF assms, of hp 0] have q:
    "q = (if \<exists>i \<in> set (all_index_reads kernel_dict 0). length hp \<le> i then Some IndexError
          else None)"
    by simp
  have a: "list2kdict hp kernel_dict = Inl IndexError
            \<longleftrightarrow> (\<exists>i \<in> set (all_index_reads kernel_dict 0). length hp \<le> i)"
    using loop q by (auto simp: list2kdict_def)
  have b: "(\<exists>kernel_dict'. list2kdict hp kernel_dict = Inr kernel_dict')
            \<longleftrightarrow> (\<forall>i \<in> set (all_index_reads kernel_dict 0). i < length hp)"
  proof -
    have ne: "(\<forall>i \<in> set (all_index_reads kernel_dict 0). i < length hp)
                \<longleftrightarrow> \<not> (\<exists>i \<in> set (all_index_reads kernel_dict 0). length hp \<le> i)"
      by (meson not_le)
    show ?thesis
      unfolding ne using loop q by (auto simp: list2kdict_def)
  qed
  have c: "cumulative_consumption kernel_dict \<le> length hp
            \<longrightarrow> (\<exists>kernel_dict'. list2kdict hp kernel_dict = Inr kernel_dict')"
  proof
    assume le: "cumulative_consumption kernel_dict \<le> length hp"
    have "\<forall>i \<in> set (all_index_reads kernel_dict 0). i < length hp"
    proof
      fix i assume "i \<in> set (all_index_reads kernel_dict 0)"
      then have "i < 0 + cumulative_consumption kernel_dict"
        by (rule all_index_reads_below_consumption)
      with le show "i < length hp" by simp
    qed
    with b show "\<exists>kernel_dict'. list2kdict hp kernel_dict = Inr kernel_dict'" by simp
  qed
  from a b c show ?thesis by blast
qed

text \<open>
  C4, witness: two widths and a constant read at position 2, which a vector of two
  elements does not have.
\<close>

theorem list2kdict_fails_iff_index_read_beyond_end_witness:
  "shaped gaussian_pair_constant
   \<and> all_index_reads gaussian_pair_constant 0 = [2]
   \<and> list2kdict [7, 8] gaussian_pair_constant = Inl IndexError"
proof -
  have s: "shaped gaussian_pair_constant"
    by (simp add: gaussian_pair_constant_def shaped_block_def has_len_def)
  have r: "all_index_reads gaussian_pair_constant 0 = [2]"
    by (simp add: gaussian_pair_constant_def index_reads_def ki_advance_def has_key_def
          seq_len_def)
  from list2kdict_fails_iff_index_read_beyond_end [OF s, of "[7, 8]"] r
  have "list2kdict [7, 8] gaussian_pair_constant = Inl IndexError" by simp
  with s r show ?thesis by simp
qed

end
